theory Spec2Isabelle
  imports Complex_Main
begin

section \<open>The tenant endpoint of pency: \<open>src/pages/api/tenant/[slug].ts\<close>\<close>

text \<open>
  The file exports one asynchronous request handler. It dispatches on the HTTP method,
  checks the presence of a few fields, shapes payloads through schema casts and forwards
  to the tenant store (\<open>api\<close>) and to the session service (\<open>sessionApi\<close>). The handler is
  embedded as a function from an environment (the collaborators it imports) and a
  request to the list of collaborator calls it makes, in order, and its outcome.
\<close>

subsection \<open>JavaScript values\<close>

text \<open>
  Query parameters, request bodies, the values the collaborators resolve or reject with:
  all are untyped at run time. A number stands for the real it denotes (a JSON number is
  a finite double, so \<open>===\<close> and truthiness on it are those of the real). An object is the
  list of its own properties.
\<close>

datatype jsval =
    JUndefined
  | JNull
  | JBool bool
  | JNum real
  | JStr string
  | JArr "jsval list"
  | JObj "(string \<times> jsval) list"

type_synonym obj = "(string \<times> jsval) list"

text \<open>\<open>!v\<close> is \<open>\<not> truthy v\<close>.\<close>

fun truthy :: "jsval \<Rightarrow> bool" where
  "truthy JUndefined = False"
| "truthy JNull = False"
| "truthy (JBool b) = b"
| "truthy (JNum r) = (r \<noteq> 0)"
| "truthy (JStr s) = (s \<noteq> [])"
| "truthy (JArr xs) = True"
| "truthy (JObj ps) = True"

text \<open>Destructuring \<open>null\<close> or \<open>undefined\<close> throws a TypeError.\<close>

fun nullish :: "jsval \<Rightarrow> bool" where
  "nullish JUndefined = True"
| "nullish JNull = True"
| "nullish v = False"

text \<open>
  \<open>a === b\<close>. Primitives are compared by value. Two objects or arrays are strictly equal
  only when they are one reference; the handler compares a query parameter with an
  environment string, and a field of the request body with a field of what the session
  service resolved, which are never one reference.
\<close>

fun strict_eq :: "jsval \<Rightarrow> jsval \<Rightarrow> bool" where
  "strict_eq JUndefined JUndefined = True"
| "strict_eq JNull JNull = True"
| "strict_eq (JBool a) (JBool b) = (a = b)"
| "strict_eq (JNum a) (JNum b) = (a = b)"
| "strict_eq (JStr a) (JStr b) = (a = b)"
| "strict_eq a b = False"

text \<open>Reading a property of an object literal \<open>ps\<close>: an absent property is \<open>undefined\<close>.\<close>

definition lookup :: "obj \<Rightarrow> string \<Rightarrow> jsval" where
  "lookup ps k = (case map_of ps k of None \<Rightarrow> JUndefined | Some v \<Rightarrow> v)"

text \<open>
  \<open>v.k\<close> for a value that is not nullish. None of the names the handler reads
  (\<open>email\<close>, \<open>password\<close>, \<open>secret\<close>, \<open>tenant\<close>, \<open>id\<close>, \<open>slug\<close>, \<open>uid\<close>, \<open>status\<close>,
  \<open>statusText\<close>) is a property of a string, a number, a boolean or an array, so there the
  result is \<open>undefined\<close>. On a nullish value the source throws; every use below is
  guarded by \<open>nullish\<close> or by \<open>truthy\<close>.
\<close>

fun get_prop :: "jsval \<Rightarrow> string \<Rightarrow> jsval" where
  "get_prop (JObj ps) k = lookup ps k"
| "get_prop v k = JUndefined"

text \<open>
  \<open>const {id, ...rest} = tenant\<close>: \<open>rest\<close> has the own properties of \<open>tenant\<close> other than
  \<open>id\<close>. The handler reaches this line only with \<open>tenant.id\<close> truthy, hence with an object.
\<close>

fun omit :: "string \<Rightarrow> jsval \<Rightarrow> jsval" where
  "omit k (JObj ps) = JObj (filter (\<lambda>p. fst p \<noteq> k) ps)"
| "omit k v = JObj []"

text \<open>
  Assigning one property: an existing key keeps its place and takes the new value, a new
  key goes last. \<open>{id: "fake-id", ...tenant}\<close> assigns the properties of \<open>tenant\<close> in
  order onto \<open>{id: "fake-id"}\<close>. The list is in assignment order; JavaScript enumerates
  integer-like keys before the others, which changes the order of the properties and
  nothing else.
\<close>

fun set_prop :: "string \<Rightarrow> jsval \<Rightarrow> obj \<Rightarrow> obj" where
  "set_prop k v [] = [(k, v)]"
| "set_prop k v (p # ps) = (if fst p = k then (k, v) # ps else p # set_prop k v ps)"

fun spread_onto :: "obj \<Rightarrow> obj \<Rightarrow> obj" where
  "spread_onto base [] = base"
| "spread_onto base (p # ps) = spread_onto (set_prop (fst p) (snd p) base) ps"

definition with_fake_id :: "obj \<Rightarrow> obj" where
  "with_fake_id tenant = spread_onto [(''id'', JStr ''fake-id'')] tenant"

text \<open>The TypeError a failed destructuring throws, as the handler can observe it.\<close>

definition TypeError :: jsval where
  "TypeError = JObj [(''name'', JStr ''TypeError'')]"

subsection \<open>Promises, responses, collaborators\<close>

text \<open>An awaited promise either resolved with a value or rejected with a reason.\<close>

datatype 'a promise = Resolved 'a | Rejected jsval

text \<open>
  \<open>res.status(s).end(v)\<close> is \<open>Response s (End v)\<close>, with \<open>end()\<close> being
  \<open>End JUndefined\<close>, the empty body; \<open>res.status(s).json(v)\<close> is \<open>Response s (Json v)\<close>.
  The status is kept as the value the handler passed.
\<close>

datatype payload = End jsval | Json jsval

datatype response = Response (res_status: jsval) (res_body: payload)

text \<open>The handler's promise resolves after one response, or rejects.\<close>

datatype outcome = Responded response | Threw jsval

text \<open>The calls to the tenant store and to the session service, with their arguments.\<close>

datatype call =
    Fetch jsval
  | Create jsval jsval jsval
  | Update jsval jsval
  | Verify jsval

record request =
  req_method :: "string option"
  req_query :: obj
  req_headers :: obj
  req_body :: jsval

text \<open>
  What the handler imports and reads: \<open>process.env.SECRET\<close>, the store \<open>api\<close>, the
  session service \<open>sessionApi\<close>, the schemas and the clock behind \<open>dates\<close>. None of them
  is part of the file, so each is a parameter. A cast returns the cast value or throws
  (\<open>Inl\<close>); the server-create schema is an object schema and its cast of an object is an
  object.
\<close>

record env =
  SECRET :: "string option"
  api_fetch :: "jsval \<Rightarrow> jsval promise"
  api_create :: "jsval \<Rightarrow> jsval \<Rightarrow> jsval \<Rightarrow> jsval promise"
  api_update :: "jsval \<Rightarrow> jsval \<Rightarrow> jsval promise"
  session_verify :: "jsval \<Rightarrow> jsval promise"
  client_fetch_cast :: "jsval \<Rightarrow> jsval + jsval"
  server_create_cast :: "jsval \<Rightarrow> jsval + obj"
  server_fetch_isValidSync :: "jsval \<Rightarrow> bool"
  server_update_cast :: "jsval \<Rightarrow> jsval + jsval"
  clock :: real

definition env_secret :: "env \<Rightarrow> jsval" where
  "env_secret e = (case SECRET e of None \<Rightarrow> JUndefined | Some s \<Rightarrow> JStr s)"

text \<open>
  Modelled from the spec: the date-utilities provider \<open>~/utils/date\<close> is not part of the
  sources; the spec describes \<open>dates.now\<close> as the current time. Times are milliseconds
  since the epoch, read from the one clock value of the request.
\<close>

definition dates_now :: "env \<Rightarrow> jsval" where
  "dates_now e = JNum (clock e)"

text \<open>
  Modelled from the spec: \<open>dates.oneWeekFromNow\<close> of the same absent provider, described
  as the one-week-ahead time: the current time plus seven days of milliseconds.
\<close>

definition dates_oneWeekFromNow :: "env \<Rightarrow> jsval" where
  "dates_oneWeekFromNow e = JNum (clock e + 7 * 24 * 60 * 60 * 1000)"

text \<open>
  Modelled from the spec: the server-create schema of \<open>~/tenant/schemas\<close> is not part of
  the sources. The spec describes casting as coercing and defaulting fields, and the draft
  as the cast object stamped with \<open>createdAt\<close>, \<open>tier\<close> and \<open>tierUntil\<close>: the cast of an
  object keeps every field it is given and adds, for each field of the schema that is
  absent, its default; a value that is not an object cannot be cast.
\<close>

definition schema_cast :: "obj \<Rightarrow> jsval \<Rightarrow> jsval + obj" where
  "schema_cast defaults v =
     (case v of
        JObj ps \<Rightarrow> Inr (ps @ filter (\<lambda>d. map_of ps (fst d) = None) defaults)
      | _ \<Rightarrow> Inl TypeError)"

subsection \<open>The handler\<close>

text \<open>
  The two fixed messages. A string is the list of its code units: o with acute accent is
  0xF3 and e with acute accent is 0xE9.
\<close>

definition session_expired_message :: string where
  "session_expired_message =
     ''La sesi'' @ [CHR 0xF3] @ ''n expir'' @ [CHR 0xF3] @ '', volv'' @ [CHR 0xE9]
       @ '' a iniciar sesi'' @ [CHR 0xF3] @ ''n para continuar''"

definition update_error_message :: string where
  "update_error_message = ''Hubo un error actualizando la tienda''"

definition not_handled :: response where
  "not_handled = Response (JNum 304) (End JUndefined)"

text \<open>
  \<open>.catch(({status, statusText}) => res.status(status).end(statusText))\<close>: the handler of
  a rejection destructures the reason, which throws on a nullish reason.
\<close>

definition catch_status :: "jsval \<Rightarrow> outcome" where
  "catch_status reason =
     (if nullish reason then Threw TypeError
      else Responded (Response (get_prop reason ''status'') (End (get_prop reason ''statusText''))))"

definition handle_get :: "env \<Rightarrow> request \<Rightarrow> call list \<times> outcome" where
  "handle_get e req =
     (let slug = lookup (req_query req) ''slug'';
          secret = lookup (req_query req) ''secret''
      in if \<not> strict_eq secret (env_secret e) then ([], Responded not_handled)
         else ([Fetch slug],
               case api_fetch e slug of
                 Resolved tenant \<Rightarrow>
                   (case client_fetch_cast e tenant of
                      Inr v \<Rightarrow> Responded (Response (JNum 200) (Json v))
                    | Inl err \<Rightarrow> catch_status err)
               | Rejected reason \<Rightarrow> catch_status reason))"

text \<open>The object literal the POST branch hands to the server-create cast.\<close>

definition stamped :: "env \<Rightarrow> jsval \<Rightarrow> jsval" where
  "stamped e slug =
     JObj [(''slug'', slug),
           (''createdAt'', dates_now e),
           (''tier'', JStr ''commercial''),
           (''tierUntil'', dates_oneWeekFromNow e)]"

definition handle_post :: "env \<Rightarrow> request \<Rightarrow> call list \<times> outcome" where
  "handle_post e req =
     (if nullish (req_body req) then ([], Threw TypeError)
      else
        let email = get_prop (req_body req) ''email'';
            password = get_prop (req_body req) ''password'';
            secret = get_prop (req_body req) ''secret'';
            slug = lookup (req_query req) ''slug''
        in if \<not> truthy email \<or> \<not> truthy password \<or> \<not> truthy slug \<or> \<not> truthy secret
                \<or> \<not> strict_eq secret (env_secret e)
           then ([], Responded not_handled)
           else
             (case server_create_cast e (stamped e slug) of
                Inl err \<Rightarrow> ([], Threw err)
              | Inr tenant \<Rightarrow>
                  if \<not> server_fetch_isValidSync e (JObj (with_fake_id tenant))
                  then ([], Responded not_handled)
                  else ([Create email password (JObj tenant)],
                        case api_create e email password (JObj tenant) of
                          Resolved _ \<Rightarrow>
                            Responded (Response (JNum 200) (Json (JObj [(''success'', JBool True)])))
                        | Rejected reason \<Rightarrow> catch_status reason)))"

text \<open>
  In the PATCH branch everything after \<open>sessionApi.verify(token)\<close> runs inside its
  \<open>.then\<close>, whose rejections the last \<open>.catch\<close> turns into the 401: a resolved value that
  cannot be destructured and a throwing cast end there too. The inner \<open>.catch\<close> sees only
  the rejection of \<open>api.update\<close>.
\<close>

definition handle_patch :: "env \<Rightarrow> request \<Rightarrow> call list \<times> outcome" where
  "handle_patch e req =
     (if nullish (req_body req) then ([], Threw TypeError)
      else
        let tenant = get_prop (req_body req) ''tenant'';
            token = lookup (req_headers req) ''authorization''
        in if \<not> truthy tenant \<or> \<not> truthy (get_prop tenant ''id'')
                \<or> \<not> truthy (get_prop tenant ''slug'')
           then ([], Responded not_handled)
           else
             let id = get_prop tenant ''id'';
                 rest = omit ''id'' tenant;
                 expired = Responded (Response (JNum 401) (End (JStr session_expired_message)))
             in (case session_verify e token of
                   Rejected reason \<Rightarrow> ([Verify token], expired)
                 | Resolved user \<Rightarrow>
                     if nullish user then ([Verify token], expired)
                     else if \<not> strict_eq (get_prop user ''uid'') id
                     then ([Verify token], Responded (Response (JNum 403) (End JUndefined)))
                     else
                       (case server_update_cast e rest of
                          Inl err \<Rightarrow> ([Verify token], expired)
                        | Inr patch \<Rightarrow>
                            ([Verify token, Update id patch],
                             case api_update e id patch of
                               Resolved _ \<Rightarrow> Responded (Response (JNum 200) (Json tenant))
                             | Rejected reason \<Rightarrow>
                                 Responded (Response (JNum 400) (End (JStr update_error_message)))))))"

definition handler :: "env \<Rightarrow> request \<Rightarrow> call list \<times> outcome" where
  "handler e req =
     (if req_method req = Some ''GET'' then handle_get e req
      else if req_method req = Some ''POST'' then handle_post e req
      else if req_method req = Some ''PATCH'' then handle_patch e req
      else ([], Responded not_handled))"

subsection \<open>Conditions on requests\<close>

text \<open>
  A PATCH request passes the presence check \<open>!tenant || !tenant?.id || !tenant?.slug\<close>:
  the body carries a tenant with an id and a slug.
\<close>

definition patch_has_tenant :: "request \<Rightarrow> bool" where
  "patch_has_tenant req \<longleftrightarrow>
     truthy (get_prop (req_body req) ''tenant'')
     \<and> truthy (get_prop (get_prop (req_body req) ''tenant'') ''id'')
     \<and> truthy (get_prop (get_prop (req_body req) ''tenant'') ''slug'')"

text \<open>
  A POST request passes validation with the draft \<open>tenant\<close>: the four fields are present,
  the secret is the configured one, the server-create cast of the stamped object returns
  \<open>tenant\<close>, and \<open>tenant\<close> under a placeholder id is valid against the server-fetch schema.
\<close>

definition post_validated :: "env \<Rightarrow> request \<Rightarrow> obj \<Rightarrow> bool" where
  "post_validated e req tenant \<longleftrightarrow>
     truthy (get_prop (req_body req) ''email'')
     \<and> truthy (get_prop (req_body req) ''password'')
     \<and> truthy (lookup (req_query req) ''slug'')
     \<and> truthy (get_prop (req_body req) ''secret'')
     \<and> get_prop (req_body req) ''secret'' = env_secret e
     \<and> server_create_cast e (stamped e (lookup (req_query req) ''slug'')) = Inr tenant
     \<and> server_fetch_isValidSync e (JObj (with_fake_id tenant))"

subsection \<open>Sample collaborators and requests\<close>

text \<open>
  A store that accepts everything, a session service that knows two tokens, schemas that
  cast an object to itself and accept every draft.
\<close>

definition shop_env :: env where
  "shop_env =
     \<lparr> SECRET = Some ''s3cret'',
       api_fetch = (\<lambda>slug. Resolved (JObj [(''id'', JStr ''u1''), (''slug'', slug)])),
       api_create = (\<lambda>email password tenant. Resolved JUndefined),
       api_update = (\<lambda>id patch. Resolved JUndefined),
       session_verify = (\<lambda>token.
          if token = JStr ''owner-token'' then Resolved (JObj [(''uid'', JStr ''u1'')])
          else if token = JStr ''other-token'' then Resolved (JObj [(''uid'', JStr ''u2'')])
          else Rejected (JObj [(''code'', JStr ''auth/argument-error'')])),
       client_fetch_cast = Inr,
       server_create_cast = (\<lambda>v. case v of JObj ps \<Rightarrow> Inr ps | _ \<Rightarrow> Inl TypeError),
       server_fetch_isValidSync = (\<lambda>v. True),
       server_update_cast = Inr,
       clock = 1600000000000 \<rparr>"

definition store_failure :: jsval where
  "store_failure = JObj [(''status'', JNum 500), (''statusText'', JStr ''Internal Server Error'')]"

text \<open>The same collaborators over a store that rejects every call.\<close>

definition failing_store_env :: env where
  "failing_store_env =
     shop_env \<lparr> api_fetch := (\<lambda>slug. Rejected store_failure),
                api_create := (\<lambda>email password tenant. Rejected store_failure),
                api_update := (\<lambda>id patch. Rejected store_failure) \<rparr>"

text \<open>The same collaborators in a process where \<open>SECRET\<close> is not set.\<close>

definition unset_secret_env :: env where
  "unset_secret_env = shop_env \<lparr> SECRET := None \<rparr>"

definition get_req :: "obj \<Rightarrow> request" where
  "get_req q = \<lparr> req_method = Some ''GET'', req_query = q, req_headers = [], req_body = JUndefined \<rparr>"

definition post_req :: request where
  "post_req =
     \<lparr> req_method = Some ''POST'',
       req_query = [(''slug'', JStr ''shop'')],
       req_headers = [],
       req_body = JObj [(''email'', JStr ''owner@shop.test''), (''password'', JStr ''hunter2''),
                        (''secret'', JStr ''s3cret'')] \<rparr>"

text \<open>A POST whose JSON body is \<open>null\<close> and whose query has no slug.\<close>

definition post_null_body_req :: request where
  "post_null_body_req =
     \<lparr> req_method = Some ''POST'', req_query = [], req_headers = [], req_body = JNull \<rparr>"

definition shop_tenant :: jsval where
  "shop_tenant = JObj [(''id'', JStr ''u1''), (''slug'', JStr ''shop''), (''title'', JStr ''Shop'')]"

definition patch_req :: "string \<Rightarrow> request" where
  "patch_req token =
     \<lparr> req_method = Some ''PATCH'',
       req_query = [(''slug'', JStr ''shop'')],
       req_headers = [(''authorization'', JStr token)],
       req_body = JObj [(''tenant'', shop_tenant)] \<rparr>"

text \<open>
  The same collaborators with the server-create schema of the spec, whose defaults are a
  free tier and a colour.
\<close>

definition trial_env :: env where
  "trial_env =
     shop_env \<lparr> server_create_cast :=
                  schema_cast [(''tier'', JStr ''free''), (''color'', JStr ''teal'')] \<rparr>"

text \<open>
  The same collaborators with a server-update schema that strips the slug, which the
  spec calls immutable after creation.
\<close>

definition slug_stripping_env :: env where
  "slug_stripping_env = shop_env \<lparr> server_update_cast := (\<lambda>v. Inr (omit ''slug'' v)) \<rparr>"

lemmas sample_defs =
  shop_env_def failing_store_env_def unset_secret_env_def store_failure_def get_req_def
  post_req_def post_null_body_req_def shop_tenant_def patch_req_def trial_env_def
  slug_stripping_env_def schema_cast_def

lemmas handler_defs =
  handler_def handle_get_def handle_post_def handle_patch_def catch_status_def not_handled_def
  env_secret_def stamped_def dates_now_def dates_oneWeekFromNow_def with_fake_id_def lookup_def
  patch_has_tenant_def post_validated_def

section \<open>Properties\<close>

subsection \<open>Values\<close>

text \<open>
  Strictly equal values are equal, and against a string \<open>===\<close> is equality. The
  configured secret is a string or \<open>undefined\<close>, so the same holds against it.
\<close>

lemma strict_eq_imp_eq: "strict_eq a b \<Longrightarrow> a = b"
  by (induction a b rule: strict_eq.induct) simp_all

lemma strict_eq_JStr: "strict_eq (JStr a) v = (v = JStr a)"
  by (cases v) auto

lemma strict_eq_env_secret: "strict_eq v (env_secret e) = (v = env_secret e)"
  by (cases v; cases "SECRET e"; simp add: env_secret_def)


lemma truthy_get_prop_not_nullish: "truthy (get_prop v k) \<Longrightarrow> \<not> nullish v"
  by (cases v) simp_all



subsection \<open>The three branches, once their checks have passed\<close>

text \<open>
  A GET with the configured secret: one call to \<open>api.fetch\<close>, and the response decided by
  how it settles.
\<close>

lemma get_gate_passed_run:
  assumes "req_method req = Some ''GET''"
    and "lookup (req_query req) ''secret'' = env_secret e"
  shows "handler e req =
           ([Fetch (lookup (req_query req) ''slug'')],
            case api_fetch e (lookup (req_query req) ''slug'') of
              Resolved tenant \<Rightarrow>
                (case client_fetch_cast e tenant of
                   Inr v \<Rightarrow> Responded (Response (JNum 200) (Json v))
                 | Inl err \<Rightarrow> catch_status err)
            | Rejected reason \<Rightarrow> catch_status reason)"
proof -
  from assms(2) have "strict_eq (lookup (req_query req) ''secret'') (env_secret e)"
    unfolding strict_eq_env_secret .
  with assms(1) show ?thesis
    by (simp add: handler_def handle_get_def Let_def)
qed

text \<open>
  A validated POST: one call to \<open>api.create\<close> with the body's credentials and the cast
  draft, and the response decided by how it settles.
\<close>

lemma post_validated_run:
  assumes "req_method req = Some ''POST''"
    and "post_validated e req tenant"
  shows "handler e req =
      ([Create (get_prop (req_body req) ''email'') (get_prop (req_body req) ''password'')
          (JObj tenant)],
       case api_create e (get_prop (req_body req) ''email'')
              (get_prop (req_body req) ''password'') (JObj tenant) of
         Resolved _ \<Rightarrow> Responded (Response (JNum 200) (Json (JObj [(''success'', JBool True)])))
       | Rejected reason \<Rightarrow> catch_status reason)"
proof -
  from assms(2) have body: "\<not> nullish (req_body req)"
    unfolding post_validated_def by (blast dest: truthy_get_prop_not_nullish)
  from assms(2) have present: "truthy (get_prop (req_body req) ''email'')"
    "truthy (get_prop (req_body req) ''password'')"
    "truthy (lookup (req_query req) ''slug'')"
    "truthy (get_prop (req_body req) ''secret'')"
    unfolding post_validated_def by blast+
  from assms(2) have secret: "strict_eq (get_prop (req_body req) ''secret'') (env_secret e)"
    unfolding post_validated_def strict_eq_env_secret by blast
  from assms(2) have draft: "server_create_cast e (stamped e (lookup (req_query req) ''slug'')) = Inr tenant"
    "server_fetch_isValidSync e (JObj (with_fake_id tenant))"
    unfolding post_validated_def by blast+
  show ?thesis
    unfolding handler_def handle_post_def Let_def
    using assms(1) body present secret draft by simp
qed

text \<open>
  A PATCH that carries a tenant with an id and a slug: the body is not nullish, and the
  run is the promise chain that starts at \<open>sessionApi.verify\<close>.
\<close>

lemma patch_has_tenant_body: "patch_has_tenant req \<Longrightarrow> \<not> nullish (req_body req)"
  unfolding patch_has_tenant_def by (blast dest: truthy_get_prop_not_nullish)

lemma patch_verified_run:
  assumes "req_method req = Some ''PATCH''"
    and "patch_has_tenant req"
  shows "handler e req =
     (let tenant = get_prop (req_body req) ''tenant'';
          token = lookup (req_headers req) ''authorization'';
          id = get_prop tenant ''id'';
          expired = Responded (Response (JNum 401) (End (JStr session_expired_message)))
      in case session_verify e token of
           Rejected reason \<Rightarrow> ([Verify token], expired)
         | Resolved user \<Rightarrow>
             if nullish user then ([Verify token], expired)
             else if \<not> strict_eq (get_prop user ''uid'') id
             then ([Verify token], Responded (Response (JNum 403) (End JUndefined)))
             else
               (case server_update_cast e (omit ''id'' tenant) of
                  Inl err \<Rightarrow> ([Verify token], expired)
                | Inr patch \<Rightarrow>
                    ([Verify token, Update id patch],
                     case api_update e id patch of
                       Resolved _ \<Rightarrow> Responded (Response (JNum 200) (Json tenant))
                     | Rejected reason \<Rightarrow>
                         Responded (Response (JNum 400) (End (JStr update_error_message))))))"
proof -
  from assms(2) have "\<not> nullish (req_body req)"
    by (rule patch_has_tenant_body)
  moreover from assms(2) have "truthy (get_prop (req_body req) ''tenant'')"
    "truthy (get_prop (get_prop (req_body req) ''tenant'') ''id'')"
    "truthy (get_prop (get_prop (req_body req) ''tenant'') ''slug'')"
    unfolding patch_has_tenant_def by blast+
  ultimately show ?thesis
    using assms(1) by (simp add: handler_def handle_patch_def Let_def)
qed

text \<open>
  If \<open>uid === id\<close> holds for a truthy \<open>id\<close>, the resolved user was not nullish: the
  destructuring \<open>({uid})\<close> did not throw.
\<close>

lemma strict_eq_truthy_not_nullish:
  assumes "strict_eq (get_prop user k) v" and "truthy v"
  shows "\<not> nullish user"
  using assms by (cases user; cases v) simp_all


subsection \<open>GET\<close>

text \<open>
  C6. For every GET request whose \<open>secret\<close> query parameter is not equal to the configured
  secret, the response is status 304 with an empty body, and \<open>TenantStore.fetch\<close> is not
  invoked: the log of calls is empty. The configured secret is a string or \<open>undefined\<close>,
  so \<open>!==\<close> against it is inequality of values.
\<close>

theorem get_wrong_secret_not_handled:
  assumes "req_method req = Some ''GET''"
    and "lookup (req_query req) ''secret'' \<noteq> env_secret e"
  shows "handler e req = ([], Responded (Response (JNum 304) (End JUndefined)))"
  using assms by (simp add: handler_def handle_get_def strict_eq_env_secret not_handled_def)

theorem get_wrong_secret_not_handled_witness:
  "req_method (get_req [(''slug'', JStr ''shop''), (''secret'', JStr ''guess'')]) = Some ''GET''
   \<and> lookup (req_query (get_req [(''slug'', JStr ''shop''), (''secret'', JStr ''guess'')])) ''secret''
       \<noteq> env_secret shop_env
   \<and> handler shop_env (get_req [(''slug'', JStr ''shop''), (''secret'', JStr ''guess'')])
       = ([], Responded (Response (JNum 304) (End JUndefined)))"
proof -
  let ?req = "get_req [(''slug'', JStr ''shop''), (''secret'', JStr ''guess'')]"
  have m: "req_method ?req = Some ''GET''"
    by (simp add: get_req_def)
  have s: "lookup (req_query ?req) ''secret'' \<noteq> env_secret shop_env"
    by (simp add: get_req_def lookup_def env_secret_def shop_env_def)
  from get_wrong_secret_not_handled [OF m s] m s show ?thesis
    by blast
qed

text \<open>
  C10. For a GET request whose \<open>secret\<close> query parameter is absent while the configured
  secret is unset, both sides of the comparison are \<open>undefined\<close>, the gate passes and
  \<open>TenantStore.fetch\<close> is invoked with the slug. For every GET request, the gate's
  rejection (status 304, empty body, no call) occurs if and only if the provided secret
  differs from the configured value, and the fetch is invoked if and only if they are
  equal.
\<close>

theorem get_secret_gate_iff:
  assumes "req_method req = Some ''GET''"
  shows "(SECRET e = None \<and> lookup (req_query req) ''secret'' = JUndefined
            \<longrightarrow> fst (handler e req) = [Fetch (lookup (req_query req) ''slug'')])
         \<and> (handler e req = ([], Responded (Response (JNum 304) (End JUndefined)))
              \<longleftrightarrow> lookup (req_query req) ''secret'' \<noteq> env_secret e)
         \<and> (fst (handler e req) = [Fetch (lookup (req_query req) ''slug'')]
              \<longleftrightarrow> lookup (req_query req) ''secret'' = env_secret e)"
proof (cases "lookup (req_query req) ''secret'' = env_secret e")
  case True
  from get_gate_passed_run [OF assms True] True show ?thesis
    by simp
next
  case False
  with assms have "handler e req = ([], Responded (Response (JNum 304) (End JUndefined)))"
    by (simp add: handler_def handle_get_def strict_eq_env_secret not_handled_def)
  with False show ?thesis
    by (auto simp: env_secret_def)
qed

theorem get_secret_gate_iff_witness:
  "req_method (get_req [(''slug'', JStr ''shop'')]) = Some ''GET''
   \<and> SECRET unset_secret_env = None
   \<and> lookup (req_query (get_req [(''slug'', JStr ''shop'')])) ''secret'' = JUndefined
   \<and> fst (handler unset_secret_env (get_req [(''slug'', JStr ''shop'')])) = [Fetch (JStr ''shop'')]
   \<and> lookup (req_query (get_req [(''slug'', JStr ''shop'')])) ''secret'' \<noteq> env_secret shop_env
   \<and> handler shop_env (get_req [(''slug'', JStr ''shop'')])
       = ([], Responded (Response (JNum 304) (End JUndefined)))"
proof -
  let ?req = "get_req [(''slug'', JStr ''shop'')]"
  have m: "req_method ?req = Some ''GET''"
    by (simp add: get_req_def)
  have u: "SECRET unset_secret_env = None"
    by (simp add: unset_secret_env_def)
  have a: "lookup (req_query ?req) ''secret'' = JUndefined"
    and slug: "lookup (req_query ?req) ''slug'' = JStr ''shop''"
    by (simp_all add: get_req_def lookup_def)
  have d: "lookup (req_query ?req) ''secret'' \<noteq> env_secret shop_env"
    by (simp add: a env_secret_def shop_env_def)
  from get_secret_gate_iff [OF m, of unset_secret_env] u a slug
  have 1: "fst (handler unset_secret_env ?req) = [Fetch (JStr ''shop'')]"
    by simp
  from get_secret_gate_iff [OF m, of shop_env] d
  have 2: "handler shop_env ?req = ([], Responded (Response (JNum 304) (End JUndefined)))"
    by blast
  from m u a d 1 2 show ?thesis
    by blast
qed

subsection \<open>POST\<close>

text \<open>
  C7, as stated, fails on a body that cannot be destructured. The request below has no
  slug in its query and the JSON body \<open>null\<close>: \<open>const {body: {email, password, secret}, ...}\<close>
  throws before the presence check, and the handler's promise rejects instead of
  answering 304.
\<close>

theorem post_null_body_counterexample:
  "req_method post_null_body_req = Some ''POST''
   \<and> lookup (req_query post_null_body_req) ''slug'' = JUndefined
   \<and> handler shop_env post_null_body_req = ([], Threw TypeError)
   \<and> snd (handler shop_env post_null_body_req)
       \<noteq> Responded (Response (JNum 304) (End JUndefined))"
  by (simp add: sample_defs handler_defs)

text \<open>
  C7, amended. For every POST request whose body is neither \<open>null\<close> nor \<open>undefined\<close>
  (the request type declares it an object), in which any of \<open>email\<close>, \<open>password\<close>,
  \<open>slug\<close> or \<open>secret\<close> is missing or empty (falsy), or in which \<open>secret\<close> is not equal to
  the configured secret, the response is status 304 with an empty body, and
  \<open>TenantStore.create\<close> is not invoked: the log of calls is empty.
\<close>

theorem post_missing_field_not_handled:
  assumes "req_method req = Some ''POST''"
    and "\<not> nullish (req_body req)"
    and "\<not> truthy (get_prop (req_body req) ''email'')
         \<or> \<not> truthy (get_prop (req_body req) ''password'')
         \<or> \<not> truthy (lookup (req_query req) ''slug'')
         \<or> \<not> truthy (get_prop (req_body req) ''secret'')
         \<or> get_prop (req_body req) ''secret'' \<noteq> env_secret e"
  shows "handler e req = ([], Responded (Response (JNum 304) (End JUndefined)))"
proof -
  from assms(3) have
    "\<not> truthy (get_prop (req_body req) ''email'')
     \<or> \<not> truthy (get_prop (req_body req) ''password'')
     \<or> \<not> truthy (lookup (req_query req) ''slug'')
     \<or> \<not> truthy (get_prop (req_body req) ''secret'')
     \<or> \<not> strict_eq (get_prop (req_body req) ''secret'') (env_secret e)"
    unfolding strict_eq_env_secret .
  with assms(1,2) show ?thesis
    unfolding handler_def handle_post_def Let_def not_handled_def by auto
qed

theorem post_missing_field_not_handled_witness:
  "req_method (post_req \<lparr> req_query := [] \<rparr>) = Some ''POST''
   \<and> \<not> nullish (req_body (post_req \<lparr> req_query := [] \<rparr>))
   \<and> \<not> truthy (lookup (req_query (post_req \<lparr> req_query := [] \<rparr>)) ''slug'')
   \<and> handler shop_env (post_req \<lparr> req_query := [] \<rparr>)
       = ([], Responded (Response (JNum 304) (End JUndefined)))"
proof -
  let ?req = "post_req \<lparr> req_query := [] \<rparr>"
  have m: "req_method ?req = Some ''POST''"
    and b: "\<not> nullish (req_body ?req)"
    and s: "\<not> truthy (lookup (req_query ?req) ''slug'')"
    by (simp_all add: post_req_def lookup_def)
  from s have any: "\<not> truthy (get_prop (req_body ?req) ''email'')
         \<or> \<not> truthy (get_prop (req_body ?req) ''password'')
         \<or> \<not> truthy (lookup (req_query ?req) ''slug'')
         \<or> \<not> truthy (get_prop (req_body ?req) ''secret'')
         \<or> get_prop (req_body ?req) ''secret'' \<noteq> env_secret shop_env"
    by blast
  from post_missing_field_not_handled [OF m b any] m b s show ?thesis
    by blast
qed




subsection \<open>Store failures on fetch and create\<close>

text \<open>
  C8. For every GET request with the correct secret whose \<open>TenantStore.fetch\<close> call fails,
  and for every validated POST request whose \<open>TenantStore.create\<close> call fails, with an error
  that carries properties (anything but \<open>null\<close> and \<open>undefined\<close>), the response has
  exactly the error's \<open>status\<close> as its status and the error's \<open>statusText\<close> as its body,
  both unmodified.
\<close>

theorem store_failure_propagated:
  "(req_method req = Some ''GET''
      \<and> lookup (req_query req) ''secret'' = env_secret e
      \<and> api_fetch e (lookup (req_query req) ''slug'') = Rejected err
      \<and> \<not> nullish err
    \<longrightarrow> handler e req =
          ([Fetch (lookup (req_query req) ''slug'')],
           Responded (Response (get_prop err ''status'') (End (get_prop err ''statusText'')))))
   \<and> (req_method req = Some ''POST''
      \<and> post_validated e req tenant
      \<and> api_create e (get_prop (req_body req) ''email'') (get_prop (req_body req) ''password'')
           (JObj tenant) = Rejected err
      \<and> \<not> nullish err
    \<longrightarrow> handler e req =
          ([Create (get_prop (req_body req) ''email'') (get_prop (req_body req) ''password'')
              (JObj tenant)],
           Responded (Response (get_prop err ''status'') (End (get_prop err ''statusText'')))))"
proof (intro conjI impI)
  assume "req_method req = Some ''GET''
      \<and> lookup (req_query req) ''secret'' = env_secret e
      \<and> api_fetch e (lookup (req_query req) ''slug'') = Rejected err
      \<and> \<not> nullish err"
  then show "handler e req =
          ([Fetch (lookup (req_query req) ''slug'')],
           Responded (Response (get_prop err ''status'') (End (get_prop err ''statusText''))))"
    by (simp add: get_gate_passed_run catch_status_def)
next
  assume "req_method req = Some ''POST''
      \<and> post_validated e req tenant
      \<and> api_create e (get_prop (req_body req) ''email'') (get_prop (req_body req) ''password'')
           (JObj tenant) = Rejected err
      \<and> \<not> nullish err"
  then have m: "req_method req = Some ''POST''" and v: "post_validated e req tenant"
    and r: "api_create e (get_prop (req_body req) ''email'')
              (get_prop (req_body req) ''password'') (JObj tenant) = Rejected err"
    and n: "\<not> nullish err"
    by blast+
  from post_validated_run [OF m v] r n
  show "handler e req =
          ([Create (get_prop (req_body req) ''email'') (get_prop (req_body req) ''password'')
              (JObj tenant)],
           Responded (Response (get_prop err ''status'') (End (get_prop err ''statusText''))))"
    by (simp add: catch_status_def)
qed

theorem store_failure_propagated_witness:
  "req_method (get_req [(''slug'', JStr ''shop''), (''secret'', JStr ''s3cret'')]) = Some ''GET''
   \<and> lookup (req_query (get_req [(''slug'', JStr ''shop''), (''secret'', JStr ''s3cret'')])) ''secret''
       = env_secret failing_store_env
   \<and> api_fetch failing_store_env (JStr ''shop'') = Rejected store_failure
   \<and> \<not> nullish store_failure
   \<and> handler failing_store_env (get_req [(''slug'', JStr ''shop''), (''secret'', JStr ''s3cret'')])
       = ([Fetch (JStr ''shop'')],
          Responded (Response (JNum 500) (End (JStr ''Internal Server Error''))))
   \<and> req_method post_req = Some ''POST''
   \<and> post_validated failing_store_env post_req
        [(''slug'', JStr ''shop''), (''createdAt'', JNum 1600000000000),
         (''tier'', JStr ''commercial''), (''tierUntil'', JNum 1600604800000)]
   \<and> handler failing_store_env post_req
       = ([Create (JStr ''owner@shop.test'') (JStr ''hunter2'')
             (JObj [(''slug'', JStr ''shop''), (''createdAt'', JNum 1600000000000),
                    (''tier'', JStr ''commercial''), (''tierUntil'', JNum 1600604800000)])],
          Responded (Response (JNum 500) (End (JStr ''Internal Server Error''))))"
proof -
  let ?get = "get_req [(''slug'', JStr ''shop''), (''secret'', JStr ''s3cret'')]"
  let ?draft = "[(''slug'', JStr ''shop''), (''createdAt'', JNum 1600000000000),
                 (''tier'', JStr ''commercial''), (''tierUntil'', JNum 1600604800000)]"
  have gm: "req_method ?get = Some ''GET''"
    and gs: "lookup (req_query ?get) ''secret'' = env_secret failing_store_env"
    and slug: "lookup (req_query ?get) ''slug'' = JStr ''shop''"
    by (simp_all add: sample_defs lookup_def env_secret_def)
  have gf: "api_fetch failing_store_env (JStr ''shop'') = Rejected store_failure"
    by (simp add: failing_store_env_def)
  have nn: "\<not> nullish store_failure"
    and st: "get_prop store_failure ''status'' = JNum 500"
    and tx: "get_prop store_failure ''statusText'' = JStr ''Internal Server Error''"
    by (simp_all add: store_failure_def lookup_def)
  have pm: "req_method post_req = Some ''POST''"
    and email: "get_prop (req_body post_req) ''email'' = JStr ''owner@shop.test''"
    and password: "get_prop (req_body post_req) ''password'' = JStr ''hunter2''"
    by (simp_all add: post_req_def lookup_def)
  have pv: "post_validated failing_store_env post_req ?draft"
    by (simp add: sample_defs handler_defs)
  have pf: "api_create failing_store_env (JStr ''owner@shop.test'') (JStr ''hunter2'') (JObj ?draft)
              = Rejected store_failure"
    by (simp add: failing_store_env_def)
  from store_failure_propagated [of ?get failing_store_env store_failure] gm gs slug gf nn st tx
  have 1: "handler failing_store_env ?get
       = ([Fetch (JStr ''shop'')],
          Responded (Response (JNum 500) (End (JStr ''Internal Server Error''))))"
    by simp
  from store_failure_propagated [of post_req failing_store_env store_failure ?draft]
    pm pv email password pf nn st tx
  have 2: "handler failing_store_env post_req
       = ([Create (JStr ''owner@shop.test'') (JStr ''hunter2'') (JObj ?draft)],
          Responded (Response (JNum 500) (End (JStr ''Internal Server Error''))))"
    by simp
  from gm gs gf nn 1 pm pv 2 show ?thesis
    by blast
qed

subsection \<open>PATCH\<close>

text \<open>
  C4. For every PATCH request with \<open>tenant\<close>, \<open>tenant.id\<close> and \<open>tenant.slug\<close> present whose
  \<open>SessionVerifier.verify\<close> call fails, the response is status 401 with the fixed Spanish
  body, spelled out below with 0xF3 for o with acute accent and 0xE9 for e with acute
  accent, and \<open>TenantStore.update\<close> is not invoked.
\<close>

theorem patch_verify_fails_expired:
  assumes "req_method req = Some ''PATCH''"
    and "patch_has_tenant req"
    and "token = lookup (req_headers req) ''authorization''"
    and "session_verify e token = Rejected reason"
  shows "handler e req =
           ([Verify token],
            Responded (Response (JNum 401)
              (End (JStr (''La sesi'' @ [CHR 0xF3] @ ''n expir'' @ [CHR 0xF3] @ '', volv''
                          @ [CHR 0xE9] @ '' a iniciar sesi'' @ [CHR 0xF3]
                          @ ''n para continuar'')))))
         \<and> (\<forall>i p. Update i p \<notin> set (fst (handler e req)))"
  using assms(3,4)
  unfolding patch_verified_run [OF assms(1,2)] Let_def session_expired_message_def by simp

theorem patch_verify_fails_expired_witness:
  "req_method (patch_req ''junk'') = Some ''PATCH''
   \<and> patch_has_tenant (patch_req ''junk'')
   \<and> session_verify shop_env (JStr ''junk'') = Rejected (JObj [(''code'', JStr ''auth/argument-error'')])
   \<and> handler shop_env (patch_req ''junk'') =
       ([Verify (JStr ''junk'')],
        Responded (Response (JNum 401)
          (End (JStr (''La sesi'' @ [CHR 0xF3] @ ''n expir'' @ [CHR 0xF3] @ '', volv''
                      @ [CHR 0xE9] @ '' a iniciar sesi'' @ [CHR 0xF3]
                      @ ''n para continuar'')))))"
proof -
  let ?req = "patch_req ''junk''"
  have m: "req_method ?req = Some ''PATCH''"
    and h: "patch_has_tenant ?req"
    and k: "JStr ''junk'' = lookup (req_headers ?req) ''authorization''"
    by (simp_all add: patch_req_def patch_has_tenant_def shop_tenant_def lookup_def)
  have v: "session_verify shop_env (JStr ''junk'')
             = Rejected (JObj [(''code'', JStr ''auth/argument-error'')])"
    by (simp add: shop_env_def)
  from patch_verify_fails_expired [OF m h k v] m h v show ?thesis
    by blast
qed

text \<open>
  C3. For every PATCH request with \<open>tenant\<close>, \<open>tenant.id\<close> and \<open>tenant.slug\<close> present whose
  token verifies successfully, to a user (a resolved value that \<open>({uid})\<close> can destructure)
  whose identifier \<open>uid\<close> is not \<open>tenant.id\<close> (\<open>uid !== id\<close>; values that differ are in
  particular not strictly equal), the response is status 403 with no body, and
  \<open>TenantStore.update\<close> is not invoked.
\<close>

theorem patch_other_user_forbidden:
  assumes "req_method req = Some ''PATCH''"
    and "patch_has_tenant req"
    and "tenant = get_prop (req_body req) ''tenant''"
    and "token = lookup (req_headers req) ''authorization''"
    and "session_verify e token = Resolved user"
    and "\<not> nullish user"
    and "\<not> strict_eq (get_prop user ''uid'') (get_prop tenant ''id'')"
  shows "handler e req = ([Verify token], Responded (Response (JNum 403) (End JUndefined)))
         \<and> (\<forall>i p. Update i p \<notin> set (fst (handler e req)))"
  using assms(3-7) unfolding patch_verified_run [OF assms(1,2)] Let_def by simp

theorem patch_other_user_forbidden_witness:
  "req_method (patch_req ''other-token'') = Some ''PATCH''
   \<and> patch_has_tenant (patch_req ''other-token'')
   \<and> session_verify shop_env (JStr ''other-token'') = Resolved (JObj [(''uid'', JStr ''u2'')])
   \<and> get_prop shop_tenant ''id'' = JStr ''u1''
   \<and> \<not> strict_eq (JStr ''u2'') (JStr ''u1'')
   \<and> handler shop_env (patch_req ''other-token'') =
       ([Verify (JStr ''other-token'')], Responded (Response (JNum 403) (End JUndefined)))"
proof -
  let ?req = "patch_req ''other-token''"
  let ?user = "JObj [(''uid'', JStr ''u2'')]"
  have m: "req_method ?req = Some ''PATCH''"
    and h: "patch_has_tenant ?req"
    and t: "shop_tenant = get_prop (req_body ?req) ''tenant''"
    and k: "JStr ''other-token'' = lookup (req_headers ?req) ''authorization''"
    by (simp_all add: patch_req_def patch_has_tenant_def shop_tenant_def lookup_def)
  have v: "session_verify shop_env (JStr ''other-token'') = Resolved ?user"
    by (simp add: shop_env_def)
  have n: "\<not> nullish ?user"
    by simp
  have i: "get_prop shop_tenant ''id'' = JStr ''u1''"
    by (simp add: shop_tenant_def lookup_def)
  have d: "\<not> strict_eq (JStr ''u2'') (JStr ''u1'')"
    by simp
  then have u: "\<not> strict_eq (get_prop ?user ''uid'') (get_prop shop_tenant ''id'')"
    by (simp add: i lookup_def)
  from patch_other_user_forbidden [OF m h t k v n u] m h v i d show ?thesis
    by blast
qed

text \<open>
  C2. For every PATCH request with \<open>tenant\<close>, \<open>tenant.id\<close> and \<open>tenant.slug\<close> present whose
  token verifies to a user identifier equal to \<open>tenant.id\<close> (\<open>uid === id\<close>, which on
  strings is equality) and whose \<open>TenantStore.update\<close> call succeeds, the response is status
  200 with the submitted tenant object as its body, exactly as received: neither the cast
  patch nor anything the store resolved with.
\<close>

theorem patch_success_returns_submitted:
  assumes "req_method req = Some ''PATCH''"
    and "patch_has_tenant req"
    and "tenant = get_prop (req_body req) ''tenant''"
    and "token = lookup (req_headers req) ''authorization''"
    and "session_verify e token = Resolved user"
    and "strict_eq (get_prop user ''uid'') (get_prop tenant ''id'')"
    and "server_update_cast e (omit ''id'' tenant) = Inr patch"
    and "api_update e (get_prop tenant ''id'') patch = Resolved result"
  shows "handler e req =
           ([Verify token, Update (get_prop tenant ''id'') patch],
            Responded (Response (JNum 200) (Json tenant)))"
proof -
  from assms(2,3) have "truthy (get_prop tenant ''id'')"
    by (simp add: patch_has_tenant_def)
  with assms(6) have "\<not> nullish user"
    by (rule strict_eq_truthy_not_nullish)
  with assms(3-8) show ?thesis
    unfolding patch_verified_run [OF assms(1,2)] Let_def by simp
qed

theorem patch_success_returns_submitted_witness:
  "req_method (patch_req ''owner-token'') = Some ''PATCH''
   \<and> patch_has_tenant (patch_req ''owner-token'')
   \<and> session_verify shop_env (JStr ''owner-token'') = Resolved (JObj [(''uid'', JStr ''u1'')])
   \<and> strict_eq (JStr ''u1'') (get_prop shop_tenant ''id'')
   \<and> handler shop_env (patch_req ''owner-token'') =
       ([Verify (JStr ''owner-token''),
         Update (JStr ''u1'') (JObj [(''slug'', JStr ''shop''), (''title'', JStr ''Shop'')])],
        Responded (Response (JNum 200) (Json shop_tenant)))"
proof -
  let ?req = "patch_req ''owner-token''"
  let ?patch = "JObj [(''slug'', JStr ''shop''), (''title'', JStr ''Shop'')]"
  have m: "req_method ?req = Some ''PATCH''"
    and h: "patch_has_tenant ?req"
    and t: "shop_tenant = get_prop (req_body ?req) ''tenant''"
    and k: "JStr ''owner-token'' = lookup (req_headers ?req) ''authorization''"
    by (simp_all add: patch_req_def patch_has_tenant_def shop_tenant_def lookup_def)
  have v: "session_verify shop_env (JStr ''owner-token'') = Resolved (JObj [(''uid'', JStr ''u1'')])"
    by (simp add: shop_env_def)
  have i: "get_prop shop_tenant ''id'' = JStr ''u1''"
    by (simp add: shop_tenant_def lookup_def)
  have u: "strict_eq (get_prop (JObj [(''uid'', JStr ''u1'')]) ''uid'') (get_prop shop_tenant ''id'')"
    by (simp add: i lookup_def)
  have c: "server_update_cast shop_env (omit ''id'' shop_tenant) = Inr ?patch"
    by (simp add: shop_env_def shop_tenant_def)
  have a: "api_update shop_env (get_prop shop_tenant ''id'') ?patch = Resolved JUndefined"
    by (simp add: shop_env_def)
  from patch_success_returns_submitted [OF m h t k v u c a] m h v i show ?thesis
    by simp
qed

text \<open>
  C5. For every PATCH request with \<open>tenant\<close>, \<open>tenant.id\<close> and \<open>tenant.slug\<close> present, a
  verified identity equal to \<open>tenant.id\<close> and a failing \<open>TenantStore.update\<close> call, the
  response is status 400 with the fixed Spanish body, whatever the store rejected with.
\<close>

theorem patch_update_fails_flattened:
  assumes "req_method req = Some ''PATCH''"
    and "patch_has_tenant req"
    and "tenant = get_prop (req_body req) ''tenant''"
    and "token = lookup (req_headers req) ''authorization''"
    and "session_verify e token = Resolved user"
    and "strict_eq (get_prop user ''uid'') (get_prop tenant ''id'')"
    and "server_update_cast e (omit ''id'' tenant) = Inr patch"
    and "api_update e (get_prop tenant ''id'') patch = Rejected reason"
  shows "handler e req =
           ([Verify token, Update (get_prop tenant ''id'') patch],
            Responded (Response (JNum 400) (End (JStr ''Hubo un error actualizando la tienda''))))"
proof -
  from assms(2,3) have "truthy (get_prop tenant ''id'')"
    by (simp add: patch_has_tenant_def)
  with assms(6) have "\<not> nullish user"
    by (rule strict_eq_truthy_not_nullish)
  with assms(3-8) show ?thesis
    unfolding patch_verified_run [OF assms(1,2)] Let_def update_error_message_def by simp
qed

theorem patch_update_fails_flattened_witness:
  "req_method (patch_req ''owner-token'') = Some ''PATCH''
   \<and> patch_has_tenant (patch_req ''owner-token'')
   \<and> session_verify failing_store_env (JStr ''owner-token'') = Resolved (JObj [(''uid'', JStr ''u1'')])
   \<and> strict_eq (JStr ''u1'') (get_prop shop_tenant ''id'')
   \<and> api_update failing_store_env (JStr ''u1'')
        (JObj [(''slug'', JStr ''shop''), (''title'', JStr ''Shop'')]) = Rejected store_failure
   \<and> handler failing_store_env (patch_req ''owner-token'') =
       ([Verify (JStr ''owner-token''),
         Update (JStr ''u1'') (JObj [(''slug'', JStr ''shop''), (''title'', JStr ''Shop'')])],
        Responded (Response (JNum 400) (End (JStr ''Hubo un error actualizando la tienda''))))"
proof -
  let ?req = "patch_req ''owner-token''"
  let ?patch = "JObj [(''slug'', JStr ''shop''), (''title'', JStr ''Shop'')]"
  have m: "req_method ?req = Some ''PATCH''"
    and h: "patch_has_tenant ?req"
    and t: "shop_tenant = get_prop (req_body ?req) ''tenant''"
    and k: "JStr ''owner-token'' = lookup (req_headers ?req) ''authorization''"
    by (simp_all add: patch_req_def patch_has_tenant_def shop_tenant_def lookup_def)
  have v: "session_verify failing_store_env (JStr ''owner-token'')
             = Resolved (JObj [(''uid'', JStr ''u1'')])"
    by (simp add: failing_store_env_def shop_env_def)
  have i: "get_prop shop_tenant ''id'' = JStr ''u1''"
    by (simp add: shop_tenant_def lookup_def)
  have u: "strict_eq (get_prop (JObj [(''uid'', JStr ''u1'')]) ''uid'') (get_prop shop_tenant ''id'')"
    by (simp add: i lookup_def)
  have c: "server_update_cast failing_store_env (omit ''id'' shop_tenant) = Inr ?patch"
    by (simp add: failing_store_env_def shop_env_def shop_tenant_def)
  have a: "api_update failing_store_env (get_prop shop_tenant ''id'') ?patch = Rejected store_failure"
    by (simp add: failing_store_env_def)
  from patch_update_fails_flattened [OF m h t k v u c a] m h v i a show ?thesis
    by simp
qed




end
